theory Spec2Isabelle
  imports Main "HOL-Library.Sublist"
begin

section \<open>Process-wide settings\<close>

text \<open>
  The fields of \<^verbatim>\<open>settings.config.Settings\<close> that the authentication core reads.
  The secret key is drawn at start-up and the two lifetimes can be overridden from the
  environment, so all three are fields of a value that is passed around, not constants.
\<close>

record settings =
  SECRET_KEY :: string
  JWT_ACCESS_TOKEN_EXPIRE_MINUTES :: int
  JWT_REFRESH_TOKEN_EXPIRE_DAYS :: int

section \<open>Token codec (\<^verbatim>\<open>utils/jwt.py\<close>)\<close>

text \<open>
  \<^verbatim>\<open>schemas.login.JWTPayload\<close>: \<^verbatim>\<open>user_id: int\<close>, \<^verbatim>\<open>exp: datetime\<close> and
  \<^verbatim>\<open>token_type: str\<close>. Instants are whole seconds since the epoch: the library writes
  \<^verbatim>\<open>exp\<close> into the token as an integer timestamp.
\<close>

record JWTPayload =
  user_id :: int
  exp :: int
  token_type :: string

text \<open>
  The dictionary carried inside a token. The three keys the program reads are the
  components; \<open>None\<close> is an absent key, so that \<open>get_token_type d\<close> is the source's
  \<^verbatim>\<open>payload.get("token_type")\<close>.
\<close>

datatype payload_dict =
  Payload (get_user_id: "int option") (get_exp: "int option") (get_token_type: "string option")

text \<open>
  The PyJWT library, symbolically. A bearer string is either not a JWT at all, or a
  dictionary together with the key that signed it. \<^verbatim>\<open>jwt.encode\<close> builds the second
  form; \<^verbatim>\<open>jwt.decode\<close> fails with \<^verbatim>\<open>DecodeError\<close> on the first form, with
  \<^verbatim>\<open>InvalidSignatureError\<close> under another key, and with \<^verbatim>\<open>ExpiredSignatureError\<close> when
  an \<^verbatim>\<open>exp\<close> entry is present and \<^verbatim>\<open>exp <= now\<close>.
\<close>

datatype token = NotJWT string | JWT (signed_with: string) (carried: payload_dict)

datatype jwt_error =
  DecodeError | InvalidSignatureError | ExpiredSignatureError | InvalidTokenError | ValidationError

text \<open>The exception classes of the library: which handler catches which error.\<close>

fun is_DecodeError :: "jwt_error \<Rightarrow> bool" where
  "is_DecodeError DecodeError = True"
| "is_DecodeError InvalidSignatureError = True"
| "is_DecodeError _ = False"

fun is_InvalidTokenError :: "jwt_error \<Rightarrow> bool" where
  "is_InvalidTokenError ValidationError = False"
| "is_InvalidTokenError _ = True"

definition jwt_encode :: "payload_dict \<Rightarrow> string \<Rightarrow> token" where
  "jwt_encode payload key = JWT key payload"

fun jwt_decode :: "token \<Rightarrow> string \<Rightarrow> int \<Rightarrow> jwt_error + payload_dict" where
  "jwt_decode (NotJWT s) key now = Inl DecodeError"
| "jwt_decode (JWT k payload) key now =
     (if k \<noteq> key then Inl InvalidSignatureError
      else case get_exp payload of
             None \<Rightarrow> Inr payload
           | Some e \<Rightarrow> if e \<le> now then Inl ExpiredSignatureError else Inr payload)"

text \<open>\<^verbatim>\<open>data.model_dump()\<close>: every field of the payload becomes a key.\<close>

definition model_dump :: "JWTPayload \<Rightarrow> payload_dict" where
  "model_dump data = Payload (Some (user_id data)) (Some (exp data)) (Some (token_type data))"

text \<open>\<^verbatim>\<open>payload["token_type"] = v\<close>\<close>

fun set_token_type :: "payload_dict \<Rightarrow> string \<Rightarrow> payload_dict" where
  "set_token_type (Payload u e t) v = Payload u e (Some v)"

definition create_access_token :: "settings \<Rightarrow> JWTPayload \<Rightarrow> token" where
  "create_access_token cfg data =
     (let payload = set_token_type (model_dump data) ''access''
      in jwt_encode payload (SECRET_KEY cfg))"

text \<open>The argument \<open>now\<close> is what \<^verbatim>\<open>datetime.now(UTC)\<close> returns inside the call.\<close>

definition create_refresh_token :: "settings \<Rightarrow> int \<Rightarrow> int \<Rightarrow> token" where
  "create_refresh_token cfg now uid =
     (let expire = now + JWT_REFRESH_TOKEN_EXPIRE_DAYS cfg * 86400;
          payload = \<lparr>user_id = uid, exp = expire, token_type = ''refresh''\<rparr>;
          payload_dict = set_token_type (model_dump payload) ''refresh''
      in jwt_encode payload_dict (SECRET_KEY cfg))"

text \<open>
  \<^verbatim>\<open>JWTPayload(**payload)\<close>: the constructor needs \<^verbatim>\<open>user_id\<close> and \<^verbatim>\<open>exp\<close>, and
  defaults \<^verbatim>\<open>token_type\<close> to \<^verbatim>\<open>"access"\<close>.
\<close>

fun JWTPayload_of :: "payload_dict \<Rightarrow> jwt_error + JWTPayload" where
  "JWTPayload_of (Payload (Some u) (Some e) t) =
     Inr \<lparr>user_id = u, exp = e, token_type = (case t of None \<Rightarrow> ''access'' | Some v \<Rightarrow> v)\<rparr>"
| "JWTPayload_of _ = Inl ValidationError"

text \<open>
  \<^verbatim>\<open>verify_token\<close>. Both handlers re-raise an error of the class they caught; the wrong
  kind is raised as \<^verbatim>\<open>InvalidTokenError\<close> inside the \<^verbatim>\<open>try\<close> and so passes through the
  second handler. A validation error of the constructor is caught by neither.
\<close>

definition verify_token :: "settings \<Rightarrow> int \<Rightarrow> token \<Rightarrow> string \<Rightarrow> jwt_error + JWTPayload" where
  "verify_token cfg now tok ttype =
     (case jwt_decode tok (SECRET_KEY cfg) now of
        Inl e \<Rightarrow> if e = ExpiredSignatureError then Inl ExpiredSignatureError
                 else if is_InvalidTokenError e then Inl InvalidTokenError
                 else Inl e
      | Inr payload \<Rightarrow>
          if get_token_type payload \<noteq> Some ttype then Inl InvalidTokenError
          else JWTPayload_of payload)"

text \<open>
  \<^verbatim>\<open>create_token_pair\<close> reads the clock once itself (\<open>now_a\<close>, for the access token) and
  once more inside \<^verbatim>\<open>create_refresh_token\<close> (\<open>now_r\<close>).
\<close>

definition create_token_pair :: "settings \<Rightarrow> int \<Rightarrow> int \<Rightarrow> int \<Rightarrow> token \<times> token" where
  "create_token_pair cfg now_a now_r uid =
     (let access_expire = now_a + JWT_ACCESS_TOKEN_EXPIRE_MINUTES cfg * 60;
          access_payload = \<lparr>user_id = uid, exp = access_expire, token_type = ''access''\<rparr>;
          access_token = create_access_token cfg access_payload;
          refresh_token = create_refresh_token cfg now_r uid
      in (access_token, refresh_token))"

section \<open>Users, roles and granted endpoints (\<^verbatim>\<open>models/admin.py\<close>)\<close>

record Api =
  api_method :: string
  api_path :: string

record Role =
  apis :: "Api list"

text \<open>
  A user row with the result of \<^verbatim>\<open>roles.all()\<close> attached. The primary key is called
  \<open>u_id\<close> because \<open>id\<close> is the identity function of HOL.
\<close>

record User =
  u_id :: int
  is_active :: bool
  is_superuser :: bool
  roles :: "Role list"

type_synonym user_table = "int \<rightharpoonup> User"

datatype HTTPException = HTTPException (status_code: nat) (detail: string)

section \<open>Request authentication (\<^verbatim>\<open>core/dependency.py\<close>)\<close>

text \<open>What can leave the \<^verbatim>\<open>try\<close> block of \<^verbatim>\<open>is_authed\<close>.\<close>

datatype raised = Jwt jwt_error | Http HTTPException

text \<open>
  The body of the \<^verbatim>\<open>try\<close>. The argument is \<open>None\<close> when the request has no bearer
  header, and the empty string is the falsy \<^verbatim>\<open>token.credentials\<close>. On success the result
  is the user together with the value stored in \<^verbatim>\<open>CTX_USER_ID\<close>.
  \<^verbatim>\<open>User.filter(id=user_id).first()\<close> is a lookup in the user table, and finds nothing
  when the token has no \<^verbatim>\<open>user_id\<close>.
\<close>

definition is_authed_try :: "settings \<Rightarrow> int \<Rightarrow> user_table \<Rightarrow> token option \<Rightarrow> raised + User \<times> int" where
  "is_authed_try cfg now users tok =
     (case tok of
        None \<Rightarrow> Inl (Http (HTTPException 401 ''Missing authentication token''))
      | Some credentials \<Rightarrow>
          if credentials = NotJWT [] then Inl (Http (HTTPException 401 ''Missing authentication token''))
          else (case jwt_decode credentials (SECRET_KEY cfg) now of
                  Inl e \<Rightarrow> Inl (Jwt e)
                | Inr decode_data \<Rightarrow>
                    (case get_user_id decode_data of
                       None \<Rightarrow> Inl (Http (HTTPException 401 ''Authentication failed''))
                     | Some uid \<Rightarrow>
                         (case users uid of
                            None \<Rightarrow> Inl (Http (HTTPException 401 ''Authentication failed''))
                          | Some user \<Rightarrow> Inr (user, uid)))))"

text \<open>
  The three handlers, in the order of the source: \<^verbatim>\<open>DecodeError\<close>,
  \<^verbatim>\<open>ExpiredSignatureError\<close>, then every other exception, which includes the
  \<^verbatim>\<open>HTTPException\<close>s raised in the body.
\<close>

definition is_authed :: "settings \<Rightarrow> int \<Rightarrow> user_table \<Rightarrow> token option \<Rightarrow> HTTPException + User \<times> int" where
  "is_authed cfg now users tok =
     (case is_authed_try cfg now users tok of
        Inr r \<Rightarrow> Inr r
      | Inl (Jwt e) \<Rightarrow>
          if is_DecodeError e then Inl (HTTPException 401 ''Invalid token'')
          else if e = ExpiredSignatureError then Inl (HTTPException 401 ''Login has expired'')
          else Inl (HTTPException 401 ''Authentication failed'')
      | Inl (Http h) \<Rightarrow> Inl (HTTPException 401 ''Authentication failed''))"

section \<open>Token refresh (\<^verbatim>\<open>api/v1/base/base.py\<close>)\<close>

datatype repo_error = DoesNotExist | IntegrityError

text \<open>
  Modelled from the spec: \<^verbatim>\<open>repositories/user.py\<close> and \<^verbatim>\<open>core/crud.py\<close>, which define
  \<^verbatim>\<open>user_repository.get\<close>, are absent. A lookup by primary key that fails with a
  not-found error when the row is absent, as the spec's error taxonomy has it and as
  \<^verbatim>\<open>create_dept\<close> relies on. The result is optional so that the caller's own test
  \<^verbatim>\<open>not user\<close> stays a branch of the model.
\<close>

definition user_repository_get :: "user_table \<Rightarrow> int \<Rightarrow> repo_error + User option" where
  "user_repository_get users i =
     (case users i of None \<Rightarrow> Inl DoesNotExist | Some u \<Rightarrow> Inr (Some u))"

text \<open>\<^verbatim>\<open>Success(data=TokenRefreshOut(...))\<close> and \<^verbatim>\<open>Fail(code=..., msg=...)\<close>.\<close>

datatype response =
  Success (access_token: token) (refresh_token: token) (expires_in: int)
| Fail (code: nat) (msg: string)

text \<open>
  \<open>now\<close> is the clock when the presented token is verified, \<open>now_a\<close> and \<open>now_r\<close> the two
  later readings inside \<^verbatim>\<open>create_token_pair\<close>. Every exception of the body is turned
  into the same 401.
\<close>

definition refresh_access_token ::
  "settings \<Rightarrow> int \<Rightarrow> int \<Rightarrow> int \<Rightarrow> user_table \<Rightarrow> token \<Rightarrow> HTTPException + response" where
  "refresh_access_token cfg now now_a now_r users tok =
     (case verify_token cfg now tok ''refresh'' of
        Inl e \<Rightarrow> Inl (HTTPException 401 ''Token is invalid or expired'')
      | Inr payload \<Rightarrow>
          (case user_repository_get users (user_id payload) of
             Inl e \<Rightarrow> Inl (HTTPException 401 ''Token is invalid or expired'')
           | Inr user \<Rightarrow>
               (case user of
                  None \<Rightarrow> Inr (Fail 401 ''User does not exist or has been disabled'')
                | Some u \<Rightarrow>
                    if \<not> is_active u
                    then Inr (Fail 401 ''User does not exist or has been disabled'')
                    else (case create_token_pair cfg now_a now_r (u_id u) of
                            (a, r) \<Rightarrow>
                              Inr (Success a r (JWT_ACCESS_TOKEN_EXPIRE_MINUTES cfg * 60))))))"

section \<open>Permission matcher (\<^verbatim>\<open>core/dependency.py\<close>)\<close>

subsection \<open>Placeholder substitution\<close>

text \<open>
  \<^verbatim>\<open>re.sub(r"\{[^}]+\}", r"[^/]+", perm_path)\<close>, scanning from the left. At an opening
  brace the expression matches when the text up to the next closing brace is not empty
  and that closing brace exists; the match is replaced and the scan resumes behind it.
  Anywhere else the character is copied.
\<close>

function re_sub_placeholders :: "string \<Rightarrow> string" where
  "re_sub_placeholders [] = []"
| "re_sub_placeholders (c # cs) =
     (if c = CHR ''{'' \<and> takeWhile (\<lambda>x. x \<noteq> CHR ''}'') cs \<noteq> []
         \<and> dropWhile (\<lambda>x. x \<noteq> CHR ''}'') cs \<noteq> []
      then ''[^/]+'' @ re_sub_placeholders (tl (dropWhile (\<lambda>x. x \<noteq> CHR ''}'') cs))
      else c # re_sub_placeholders cs)"
  by pat_completeness auto
termination
proof (relation "measure length")
  show "wf (measure length)" by simp
next
  fix c :: char and cs :: string
  have "length (tl (dropWhile (\<lambda>x. x \<noteq> CHR ''}'') cs)) \<le> length cs"
    using length_dropWhile_le [of "\<lambda>x. x \<noteq> CHR ''}''" cs] by simp
  then show "(tl (dropWhile (\<lambda>x. x \<noteq> CHR ''}'') cs), c # cs) \<in> measure length"
    by simp
next
  fix c :: char and cs :: string
  show "(cs, c # cs) \<in> measure length" by simp
qed

subsection \<open>The fragment of Python's regular expressions that is modelled\<close>

text \<open>
  The pattern handed to \<^verbatim>\<open>re.match\<close> is a string, so the model reads it back. It
  covers the syntax that the substitution produces from paths without further
  metacharacters, and the dot:
  \<^item> an ordinary character matches itself;
  \<^item> \<^verbatim>\<open>.\<close> matches any character but a line feed;
  \<^item> \<^verbatim>\<open>[^/]+\<close> matches one or more characters other than the slash;
  \<^item> \<^verbatim>\<open>^\<close> as the first character and \<^verbatim>\<open>$\<close> as the last are the anchors, and
    \<^verbatim>\<open>$\<close> holds at the end of the text and also just before a line feed that ends it.
  Every other use of a metacharacter is outside the fragment: the parser answers
  \<open>None\<close> and so does the permission check, which then says nothing about the request.
\<close>

datatype re_item = Lit char | AnyChar | NotSlashPlus | EndAnchor

definition re_special :: "char \<Rightarrow> bool" where
  "re_special c = (c \<in> set (''.^$*+?{}[]|()'' @ [CHR 0x5C]))"

fun re_parse_items :: "string \<Rightarrow> re_item list option" where
  "re_parse_items [] = Some []"
| "re_parse_items (c # cs) =
     (if c = CHR ''$'' \<and> cs = [] then Some [EndAnchor]
      else if c = CHR ''.'' then map_option (Cons AnyChar) (re_parse_items cs)
      else if c = CHR ''['' \<and> take 4 cs = ''^/]+''
        then map_option (Cons NotSlashPlus) (re_parse_items (drop 4 cs))
      else if re_special c then None
      else map_option (Cons (Lit c)) (re_parse_items cs))"

text \<open>A leading \<^verbatim>\<open>^\<close> adds nothing to \<^verbatim>\<open>re.match\<close>, which only matches at the start.\<close>

definition re_parse :: "string \<Rightarrow> re_item list option" where
  "re_parse p = (case p of
                   c # cs \<Rightarrow> if c = CHR ''^'' then re_parse_items cs else re_parse_items p
                 | [] \<Rightarrow> re_parse_items p)"

text \<open>Does some prefix of the text match the items? Backtracking over the repetition.\<close>

fun re_match_items :: "re_item list \<Rightarrow> string \<Rightarrow> bool" where
  "re_match_items [] s = True"
| "re_match_items (EndAnchor # is) s = ((s = [] \<or> s = [CHR 0x0A]) \<and> re_match_items is s)"
| "re_match_items (Lit c # is) [] = False"
| "re_match_items (Lit c # is) (x # xs) = (x = c \<and> re_match_items is xs)"
| "re_match_items (AnyChar # is) [] = False"
| "re_match_items (AnyChar # is) (x # xs) = (x \<noteq> CHR 0x0A \<and> re_match_items is xs)"
| "re_match_items (NotSlashPlus # is) [] = False"
| "re_match_items (NotSlashPlus # is) (x # xs) =
     (x \<noteq> CHR ''/'' \<and> (re_match_items is xs \<or> re_match_items (NotSlashPlus # is) xs))"

text \<open>\<^verbatim>\<open>re.match(pattern, path)\<close> as a truth value, \<open>None\<close> outside the fragment.\<close>

definition re_match :: "string \<Rightarrow> string \<Rightarrow> bool option" where
  "re_match pattern path = map_option (\<lambda>items. re_match_items items path) (re_parse pattern)"

subsection \<open>The check\<close>

text \<open>
  The loop over \<^verbatim>\<open>permission_apis\<close>: the first pair with the request's method whose
  pattern matches ends the search. A pattern is only compiled when the method is equal.
\<close>

fun match_permission :: "(string \<times> string) list \<Rightarrow> string \<Rightarrow> string \<Rightarrow> bool option" where
  "match_permission [] method path = Some False"
| "match_permission ((perm_method, perm_path) # rest) method path =
     (if method = perm_method
      then (let pattern = re_sub_placeholders perm_path;
                pattern = ''^'' @ pattern @ ''$''
            in case re_match pattern path of
                 None \<Rightarrow> None
               | Some True \<Rightarrow> Some True
               | Some False \<Rightarrow> match_permission rest method path)
      else match_permission rest method path)"

text \<open>
  \<^verbatim>\<open>PermissionControl.has_permission\<close>. \<open>Inr ()\<close> is the plain return that lets the
  request through, \<open>Inl\<close> the raised exception.
\<close>

definition has_permission :: "User \<Rightarrow> string \<Rightarrow> string \<Rightarrow> (HTTPException + unit) option" where
  "has_permission current_user method path =
     (if is_superuser current_user then Some (Inr ())
      else if roles current_user = []
        then Some (Inl (HTTPException 403 ''The user is not bound to a role''))
      else (let permission_apis =
                  map (\<lambda>api. (api_method api, api_path api)) (concat (map apis (roles current_user)))
            in case match_permission permission_apis method path of
                 None \<Rightarrow> None
               | Some True \<Rightarrow> Some (Inr ())
               | Some False \<Rightarrow>
                   Some (Inl (HTTPException 403
                     (''Permission denied method:'' @ method @ '' path:'' @ path)))))"

section \<open>Department hierarchy (\<^verbatim>\<open>repositories/dept.py\<close>)\<close>

text \<open>
  Modelled from the spec: \<^verbatim>\<open>schemas/depts.py\<close> is absent. The request bodies
  \<^verbatim>\<open>DeptCreate\<close> and \<^verbatim>\<open>DeptUpdate\<close> carry the editable columns of a department, the
  second one also the \<^verbatim>\<open>id\<close> of the row to change. The table row of
  \<^verbatim>\<open>models.admin.Dept\<close> has the same columns and \<^verbatim>\<open>is_deleted\<close>, so the three are one
  extensible record and \<open>parent_id\<close> reads the field of any of them, as the attribute
  does in the source. The primary key is \<open>d_id\<close>.
\<close>

record DeptCreate =
  name :: string
  desc :: "string option"
  order :: int
  parent_id :: int

record DeptUpdate = DeptCreate +
  d_id :: int

record Dept = DeptUpdate +
  is_deleted :: bool

text \<open>A row of \<^verbatim>\<open>models.admin.DeptClosure\<close>.\<close>

record DeptClosure =
  ancestor :: int
  descendant :: int
  level :: int

text \<open>
  The two tables, rows in insertion order, and the value the database gives to the
  primary key of the next department.
\<close>

record db =
  depts :: "Dept list"
  dept_closure :: "DeptClosure list"
  next_dept_id :: int

text \<open>
  Modelled from the spec: \<^verbatim>\<open>core/crud.py\<close> is absent. \<^verbatim>\<open>CRUDBase.get\<close> returns the
  row with the given primary key and fails with a not-found error when there is none.
\<close>

definition dept_get :: "db \<Rightarrow> int \<Rightarrow> repo_error + Dept" where
  "dept_get d i = (case find (\<lambda>r. d_id r = i) (depts d) of
                     None \<Rightarrow> Inl DoesNotExist
                   | Some r \<Rightarrow> Inr r)"

text \<open>
  Modelled from the spec: \<^verbatim>\<open>core/crud.py\<close> is absent. \<^verbatim>\<open>CRUDBase.create\<close> inserts the
  new row under a fresh primary key and returns it. The column \<^verbatim>\<open>name\<close> is declared
  unique in \<^verbatim>\<open>models/admin.py\<close>, so a second row of the same name is refused.
\<close>

definition dept_create :: "db \<Rightarrow> DeptCreate \<Rightarrow> repo_error + db \<times> Dept" where
  "dept_create d obj_in =
     (if name obj_in \<in> set (map name (depts d)) then Inl IntegrityError
      else (let new_obj = \<lparr>name = name obj_in, desc = desc obj_in, order = order obj_in,
                             parent_id = parent_id obj_in, d_id = next_dept_id d,
                             is_deleted = False\<rparr>
            in Inr (d\<lparr>depts := depts d @ [new_obj], next_dept_id := next_dept_id d + 1\<rparr>,
                    new_obj)))"

text \<open>
  \<^verbatim>\<open>obj.save()\<close> of the ORM: the row with the object's primary key takes the object's
  columns, unless that breaks the unique name.
\<close>

definition dept_save :: "db \<Rightarrow> Dept \<Rightarrow> repo_error + db" where
  "dept_save d obj =
     (if list_ex (\<lambda>r. d_id r \<noteq> d_id obj \<and> name r = name obj) (depts d) then Inl IntegrityError
      else Inr (d\<lparr>depts := map (\<lambda>r. if d_id r = d_id obj then obj else r) (depts d)\<rparr>))"

definition update_dept_closure :: "db \<Rightarrow> Dept \<Rightarrow> db" where
  "update_dept_closure d obj =
     (let parent_depts = filter (\<lambda>r. descendant r = parent_id obj) (dept_closure d);
          dept_closure_objs =
            map (\<lambda>item. \<lparr>ancestor = ancestor item, descendant = d_id obj, level = level item + 1\<rparr>)
                parent_depts
            @ [\<lparr>ancestor = d_id obj, descendant = d_id obj, level = 0\<rparr>]
      in d\<lparr>dept_closure := dept_closure d @ dept_closure_objs\<rparr>)"

text \<open>
  The three operations run in a transaction: an error leaves the database as it was, so
  the failing branch returns no new state.
\<close>

definition create_dept :: "db \<Rightarrow> DeptCreate \<Rightarrow> repo_error + db" where
  "create_dept d obj_in =
     (if parent_id obj_in \<noteq> 0 \<and> isl (dept_get d (parent_id obj_in)) then Inl DoesNotExist
      else (case dept_create d obj_in of
              Inl e \<Rightarrow> Inl e
            | Inr (d', new_obj) \<Rightarrow> Inr (update_dept_closure d' new_obj)))"

text \<open>
  \<^verbatim>\<open>dept_obj.update_from_dict(obj_in.model_dump(...))\<close>: the columns of the request
  overwrite those of the row.
\<close>

definition update_from_dict :: "Dept \<Rightarrow> DeptUpdate \<Rightarrow> Dept" where
  "update_from_dict dept_obj obj_in =
     dept_obj\<lparr>name := name obj_in, desc := desc obj_in, order := order obj_in,
              parent_id := parent_id obj_in, d_id := d_id obj_in\<rparr>"

text \<open>
  \<^verbatim>\<open>update_dept\<close>, statement by statement: the closure rows are rebuilt from
  \<open>dept_obj\<close> as it was read, and only afterwards does the row take the request's
  columns.
\<close>

definition update_dept :: "db \<Rightarrow> DeptUpdate \<Rightarrow> repo_error + db" where
  "update_dept d obj_in =
     (case dept_get d (d_id obj_in) of
        Inl e \<Rightarrow> Inl e
      | Inr dept_obj \<Rightarrow>
          (let d1 = (if parent_id dept_obj \<noteq> parent_id obj_in
                     then (let d2 = d\<lparr>dept_closure :=
                                       filter (\<lambda>r. ancestor r \<noteq> d_id dept_obj) (dept_closure d)\<rparr>;
                               d3 = d2\<lparr>dept_closure :=
                                       filter (\<lambda>r. descendant r \<noteq> d_id dept_obj) (dept_closure d2)\<rparr>
                           in update_dept_closure d3 dept_obj)
                     else d)
           in dept_save d1 (update_from_dict dept_obj obj_in)))"

definition delete_dept :: "db \<Rightarrow> int \<Rightarrow> repo_error + db" where
  "delete_dept d dept_id =
     (case dept_get d dept_id of
        Inl e \<Rightarrow> Inl e
      | Inr obj \<Rightarrow>
          (case dept_save d (obj\<lparr>is_deleted := True\<rparr>) of
             Inl e \<Rightarrow> Inl e
           | Inr d1 \<Rightarrow>
               Inr (d1\<lparr>dept_closure := filter (\<lambda>r. descendant r \<noteq> dept_id) (dept_closure d1)\<rparr>)))"

section \<open>Sensitive-content filter (\<^verbatim>\<open>utils/sensitive_word_filter.py\<close>)\<close>

subsection \<open>String methods of Python\<close>

text \<open>
  A character is a code point below 256. In that range \<^verbatim>\<open>str.lower\<close> changes the
  letters A to Z and the accented capitals 0xC0 to 0xDE other than the multiplication
  sign, each to the code point 32 above, and \<^verbatim>\<open>str.strip\<close> removes the code points
  9 to 13, 28 to 32, 0x85 and 0xA0.
\<close>

definition lower_char :: "char \<Rightarrow> char" where
  "lower_char c =
     (let n = (of_char c :: nat)
      in if (0x41 \<le> n \<and> n \<le> 0x5A) \<or> (0xC0 \<le> n \<and> n \<le> 0xDE \<and> n \<noteq> 0xD7)
         then char_of (n + 32) else c)"

definition lower :: "string \<Rightarrow> string" where
  "lower s = map lower_char s"



subsection \<open>The pyahocorasick automaton\<close>






subsection \<open>The filter\<close>






section \<open>Notions used to state the properties\<close>

text \<open>
  The constraints that \<^verbatim>\<open>models/admin.py\<close> declares on the department table: the
  primary key and the unique \<^verbatim>\<open>name\<close>. The database keeps both.
\<close>

definition dept_table_ok :: "db \<Rightarrow> bool" where
  "dept_table_ok d = (distinct (map d_id (depts d)) \<and> distinct (map name (depts d)))"

text \<open>
  The text contains the term in some letter casing: the lowercase term is a contiguous
  part of the lowercase text.
\<close>

definition occurs_ci :: "string \<Rightarrow> string \<Rightarrow> bool" where
  "occurs_ci w t = sublist (lower w) (lower t)"

section \<open>Properties of the token codec and the session flow\<close>



text \<open>
  C5. A refresh call presents a refresh token that carries the service's signature and
  has not expired. When the user of the token's \<^verbatim>\<open>user_id\<close> is gone, or is there with
  \<^verbatim>\<open>is_active\<close> false, the call ends in a 401 and issues no tokens; when the user is
  there and active, it answers with a new token pair for that user.
\<close>

theorem refresh_rechecks_user:
  assumes "tok = JWT (SECRET_KEY cfg) (Payload (Some uid) (Some e) (Some ''refresh''))"
      and "now < e"
  shows "refresh_access_token cfg now now_a now_r users tok =
           (case users uid of
              None \<Rightarrow> Inl (HTTPException 401 ''Token is invalid or expired'')
            | Some u \<Rightarrow>
                if is_active u
                then Inr (Success (fst (create_token_pair cfg now_a now_r (u_id u)))
                                  (snd (create_token_pair cfg now_a now_r (u_id u)))
                                  (JWT_ACCESS_TOKEN_EXPIRE_MINUTES cfg * 60))
                else Inr (Fail 401 ''User does not exist or has been disabled''))"
  using assms
  by (simp add: refresh_access_token_def verify_token_def user_repository_get_def
      split: option.splits prod.splits)

theorem refresh_rechecks_user_witness:
  "refresh_access_token \<lparr>SECRET_KEY = ''k'', JWT_ACCESS_TOKEN_EXPIRE_MINUTES = 240,
                          JWT_REFRESH_TOKEN_EXPIRE_DAYS = 7\<rparr> 2000 2000 2000
     [5 \<mapsto> \<lparr>u_id = 5, is_active = False, is_superuser = False, roles = []\<rparr>]
     (JWT ''k'' (Payload (Some 5) (Some 605800) (Some ''refresh'')))
   = Inr (Fail 401 ''User does not exist or has been disabled'')
   \<and> refresh_access_token \<lparr>SECRET_KEY = ''k'', JWT_ACCESS_TOKEN_EXPIRE_MINUTES = 240,
                          JWT_REFRESH_TOKEN_EXPIRE_DAYS = 7\<rparr> 2000 2000 2000
     Map.empty
     (JWT ''k'' (Payload (Some 5) (Some 605800) (Some ''refresh'')))
   = Inl (HTTPException 401 ''Token is invalid or expired'')
   \<and> refresh_access_token \<lparr>SECRET_KEY = ''k'', JWT_ACCESS_TOKEN_EXPIRE_MINUTES = 240,
                          JWT_REFRESH_TOKEN_EXPIRE_DAYS = 7\<rparr> 2000 2000 2000
     [5 \<mapsto> \<lparr>u_id = 5, is_active = True, is_superuser = False, roles = []\<rparr>]
     (JWT ''k'' (Payload (Some 5) (Some 605800) (Some ''refresh'')))
   = Inr (Success (JWT ''k'' (Payload (Some 5) (Some 16400) (Some ''access'')))
                  (JWT ''k'' (Payload (Some 5) (Some 606800) (Some ''refresh'')))
                  14400)"
  using refresh_rechecks_user
      [of "JWT ''k'' (Payload (Some 5) (Some 605800) (Some ''refresh''))"
          "\<lparr>SECRET_KEY = ''k'', JWT_ACCESS_TOKEN_EXPIRE_MINUTES = 240,
            JWT_REFRESH_TOKEN_EXPIRE_DAYS = 7\<rparr>" 5 605800 2000 2000 2000
          "[5 \<mapsto> \<lparr>u_id = 5, is_active = False, is_superuser = False, roles = []\<rparr>]"]
    refresh_rechecks_user
      [of "JWT ''k'' (Payload (Some 5) (Some 605800) (Some ''refresh''))"
          "\<lparr>SECRET_KEY = ''k'', JWT_ACCESS_TOKEN_EXPIRE_MINUTES = 240,
            JWT_REFRESH_TOKEN_EXPIRE_DAYS = 7\<rparr>" 5 605800 2000 2000 2000
          "Map.empty"]
    refresh_rechecks_user
      [of "JWT ''k'' (Payload (Some 5) (Some 605800) (Some ''refresh''))"
          "\<lparr>SECRET_KEY = ''k'', JWT_ACCESS_TOKEN_EXPIRE_MINUTES = 240,
            JWT_REFRESH_TOKEN_EXPIRE_DAYS = 7\<rparr>" 5 605800 2000 2000 2000
          "[5 \<mapsto> \<lparr>u_id = 5, is_active = True, is_superuser = False, roles = []\<rparr>]"]
  by (simp add: create_token_pair_def create_access_token_def create_refresh_token_def
      jwt_encode_def model_dump_def Let_def)

text \<open>
  C1, as the code has it. \<^verbatim>\<open>is_authed\<close> decodes the bearer token itself and never
  looks at \<^verbatim>\<open>token_type\<close>: the refresh token of a freshly issued pair authenticates the
  request of its user.
\<close>

theorem is_authed_accepts_refresh_token:
  "is_authed \<lparr>SECRET_KEY = ''k'', JWT_ACCESS_TOKEN_EXPIRE_MINUTES = 240,
              JWT_REFRESH_TOKEN_EXPIRE_DAYS = 7\<rparr> 1001
     [1 \<mapsto> \<lparr>u_id = 1, is_active = True, is_superuser = False, roles = []\<rparr>]
     (Some (snd (create_token_pair \<lparr>SECRET_KEY = ''k'', JWT_ACCESS_TOKEN_EXPIRE_MINUTES = 240,
              JWT_REFRESH_TOKEN_EXPIRE_DAYS = 7\<rparr> 1000 1000 1)))
   = Inr (\<lparr>u_id = 1, is_active = True, is_superuser = False, roles = []\<rparr>, 1)"
  by (simp add: is_authed_def is_authed_try_def create_token_pair_def create_access_token_def
      create_refresh_token_def jwt_encode_def model_dump_def Let_def)

section \<open>Properties of the permission matcher\<close>

text \<open>
  C6. A superuser is let through for every method and path, whatever roles the user
  has, and so also with no role at all.
\<close>

theorem superuser_always_allowed:
  "is_superuser u \<Longrightarrow> has_permission u method path = Some (Inr ())"
  by (simp add: has_permission_def)

theorem superuser_always_allowed_witness:
  "has_permission \<lparr>u_id = 1, is_active = True, is_superuser = True, roles = []\<rparr>
     ''DELETE'' ''/api/v1/anything/at/all'' = Some (Inr ())"
  using superuser_always_allowed
    [of "\<lparr>u_id = 1, is_active = True, is_superuser = True, roles = []\<rparr>"
        "''DELETE''" "''/api/v1/anything/at/all''"]
  by simp

text \<open>
  C7. A user who is not a superuser and has no role is refused with a 403 whose message
  says that the user is not bound to a role, for every method and path. A refusal of a
  user who has roles carries another message, the one that names the method and the
  path.
\<close>

theorem no_role_is_forbidden:
  assumes "\<not> is_superuser u" and "roles u = []"
  shows "has_permission u method path
           = Some (Inl (HTTPException 403 ''The user is not bound to a role''))
       \<and> (\<forall>u' h. \<not> is_superuser u' \<and> roles u' \<noteq> [] \<and> has_permission u' method path = Some (Inl h)
            \<longrightarrow> h = HTTPException 403 (''Permission denied method:'' @ method @ '' path:'' @ path)
              \<and> h \<noteq> HTTPException 403 ''The user is not bound to a role'')"
  using assms
  by (auto simp add: has_permission_def Let_def split: option.splits bool.splits)

theorem no_role_is_forbidden_witness:
  "has_permission \<lparr>u_id = 2, is_active = True, is_superuser = False, roles = []\<rparr>
     ''GET'' ''/api/v1/users/list''
     = Some (Inl (HTTPException 403 ''The user is not bound to a role''))
   \<and> has_permission \<lparr>u_id = 3, is_active = True, is_superuser = False,
                     roles = [\<lparr>apis = []\<rparr>]\<rparr> ''GET'' ''/api/v1/users/list''
     = Some (Inl (HTTPException 403 ''Permission denied method:GET path:/api/v1/users/list''))"
proof -
  have denied:
    "has_permission \<lparr>u_id = 3, is_active = True, is_superuser = False,
                     roles = [\<lparr>apis = []\<rparr>]\<rparr> ''GET'' ''/api/v1/users/list''
     = Some (Inl (HTTPException 403 ''Permission denied method:GET path:/api/v1/users/list''))"
    by (simp add: has_permission_def)
  show ?thesis
    using no_role_is_forbidden
      [of "\<lparr>u_id = 2, is_active = True, is_superuser = False, roles = []\<rparr>"
          "''GET''" "''/api/v1/users/list''"]
      denied
    by simp
qed

text \<open>
  C10. A granted path is used as a regular expression once its placeholders are
  replaced, so its other characters are not matched literally: the grant of
  \<^verbatim>\<open>GET /api/v1/a.b\<close>, which has no placeholder, lets \<^verbatim>\<open>GET /api/v1/aXb\<close> through.
\<close>

theorem regex_dot_grants_other_path:
  "has_permission \<lparr>u_id = 7, is_active = True, is_superuser = False,
       roles = [\<lparr>apis = [\<lparr>api_method = ''GET'', api_path = ''/api/v1/a.b''\<rparr>]\<rparr>]\<rparr>
     ''GET'' ''/api/v1/aXb'' = Some (Inr ())
   \<and> re_sub_placeholders ''/api/v1/a.b'' = ''/api/v1/a.b''
   \<and> ''/api/v1/a.b'' \<noteq> ''/api/v1/aXb''"
  by (simp add: has_permission_def re_match_def re_parse_def re_special_def)

text \<open>
  Matching a run of ordinary characters, and a placeholder that ends the pattern.
\<close>

lemma re_match_items_literals:
  "re_match_items (map Lit ls @ items) s = (\<exists>rest. s = ls @ rest \<and> re_match_items items rest)"
proof (induction ls arbitrary: s)
  case Nil
  then show ?case by simp
next
  case (Cons c ls)
  then show ?case by (cases s) auto
qed

lemma re_match_items_segment:
  "re_match_items [NotSlashPlus, EndAnchor] s = (s \<noteq> [] \<and> CHR ''/'' \<notin> set s)"
  by (induction s) auto

lemma match_permission_one_grant:
  assumes "xs \<noteq> []" and "\<forall>x\<in>set xs. x = (pm, pp)"
  shows "match_permission xs m path =
           (if m = pm then re_match (''^'' @ re_sub_placeholders pp @ ''$'') path else Some False)"
  using assms
proof (induction xs)
  case Nil
  then show ?case by simp
next
  case (Cons x xs)
  then have x: "x = (pm, pp)" by simp
  show ?case
  proof (cases "xs = []")
    case True
    then show ?thesis
      unfolding x by (simp split: option.splits bool.splits)
  next
    case False
    then have "match_permission xs m path =
           (if m = pm then re_match (''^'' @ re_sub_placeholders pp @ ''$'') path else Some False)"
      using Cons.IH Cons.prems(2) by simp
    then show ?thesis
      unfolding x by (auto split: option.splits bool.splits)
  qed
qed

lemma items_pattern:
  "re_match (''^'' @ re_sub_placeholders ''/api/v1/items/{id}'' @ ''$'') path
     = Some (\<exists>seg. path = ''/api/v1/items/'' @ seg \<and> seg \<noteq> [] \<and> CHR ''/'' \<notin> set seg)"
proof -
  have parse: "re_parse (''^'' @ re_sub_placeholders ''/api/v1/items/{id}'' @ ''$'')
                 = Some (map Lit ''/api/v1/items/'' @ [NotSlashPlus, EndAnchor])"
    by (simp add: re_parse_def re_special_def)
  show ?thesis
    unfolding re_match_def parse
    by (simp only: option.map re_match_items_literals re_match_items_segment)
qed

text \<open>
  C3. A user who is not a superuser and whose roles grant \<^verbatim>\<open>GET /api/v1/items/{id}\<close>
  and nothing else is let through exactly for the method \<^verbatim>\<open>GET\<close> and the paths
  \<^verbatim>\<open>/api/v1/items/\<close> followed by one segment, that is one or more characters other than
  the slash. So \<^verbatim>\<open>GET /api/v1/items/42\<close> and \<^verbatim>\<open>GET /api/v1/items/abc\<close> pass, and
  \<^verbatim>\<open>POST /api/v1/items/42\<close> and \<^verbatim>\<open>GET /api/v1/items/42/extra\<close> are refused.
\<close>

theorem items_placeholder_permission:
  assumes "\<not> is_superuser u"
      and "set (concat (map apis (roles u)))
             = {\<lparr>api_method = ''GET'', api_path = ''/api/v1/items/{id}''\<rparr>}"
  shows "has_permission u method path =
           Some (if method = ''GET''
                    \<and> (\<exists>seg. path = ''/api/v1/items/'' @ seg \<and> seg \<noteq> [] \<and> CHR ''/'' \<notin> set seg)
                 then Inr ()
                 else Inl (HTTPException 403
                        (''Permission denied method:'' @ method @ '' path:'' @ path)))"
proof -
  define perms where
    "perms = map (\<lambda>api. (api_method api, api_path api)) (concat (map apis (roles u)))"
  define ok where
    "ok = (\<exists>seg. path = ''/api/v1/items/'' @ seg \<and> seg \<noteq> [] \<and> CHR ''/'' \<notin> set seg)"
  have "set (concat (map apis (roles u))) \<noteq> {}"
    unfolding assms(2) by (rule insert_not_empty)
  then have nonempty: "roles u \<noteq> []" and perms_nonempty: "perms \<noteq> []"
    by (auto simp add: perms_def)
  have "set perms = (\<lambda>api. (api_method api, api_path api))
                      ` {\<lparr>api_method = ''GET'', api_path = ''/api/v1/items/{id}''\<rparr>}"
    unfolding perms_def set_map assms(2) ..
  then have grants: "\<forall>x\<in>set perms. x = (''GET'', ''/api/v1/items/{id}'')"
    by simp
  have "match_permission perms method path = (if method = ''GET'' then Some ok else Some False)"
    unfolding match_permission_one_grant [OF perms_nonempty grants] items_pattern ok_def ..
  then have "has_permission u method path =
               Some (if method = ''GET'' \<and> ok then Inr ()
                     else Inl (HTTPException 403
                            (''Permission denied method:'' @ method @ '' path:'' @ path)))"
    using assms(1) nonempty
    by (cases ok) (simp_all add: has_permission_def perms_def [symmetric] del: set_concat set_map)
  then show ?thesis
    unfolding ok_def .
qed

theorem items_placeholder_permission_witness:
  "has_permission \<lparr>u_id = 9, is_active = True, is_superuser = False,
       roles = [\<lparr>apis = [\<lparr>api_method = ''GET'', api_path = ''/api/v1/items/{id}''\<rparr>]\<rparr>]\<rparr>
     ''GET'' ''/api/v1/items/42'' = Some (Inr ())
   \<and> has_permission \<lparr>u_id = 9, is_active = True, is_superuser = False,
       roles = [\<lparr>apis = [\<lparr>api_method = ''GET'', api_path = ''/api/v1/items/{id}''\<rparr>]\<rparr>]\<rparr>
     ''GET'' ''/api/v1/items/abc'' = Some (Inr ())
   \<and> has_permission \<lparr>u_id = 9, is_active = True, is_superuser = False,
       roles = [\<lparr>apis = [\<lparr>api_method = ''GET'', api_path = ''/api/v1/items/{id}''\<rparr>]\<rparr>]\<rparr>
     ''POST'' ''/api/v1/items/42''
       = Some (Inl (HTTPException 403 ''Permission denied method:POST path:/api/v1/items/42''))
   \<and> has_permission \<lparr>u_id = 9, is_active = True, is_superuser = False,
       roles = [\<lparr>apis = [\<lparr>api_method = ''GET'', api_path = ''/api/v1/items/{id}''\<rparr>]\<rparr>]\<rparr>
     ''GET'' ''/api/v1/items/42/extra''
       = Some (Inl (HTTPException 403 ''Permission denied method:GET path:/api/v1/items/42/extra''))"
  using items_placeholder_permission
      [of "\<lparr>u_id = 9, is_active = True, is_superuser = False,
            roles = [\<lparr>apis = [\<lparr>api_method = ''GET'', api_path = ''/api/v1/items/{id}''\<rparr>]\<rparr>]\<rparr>"
          "''GET''" "''/api/v1/items/42''"]
    items_placeholder_permission
      [of "\<lparr>u_id = 9, is_active = True, is_superuser = False,
            roles = [\<lparr>apis = [\<lparr>api_method = ''GET'', api_path = ''/api/v1/items/{id}''\<rparr>]\<rparr>]\<rparr>"
          "''GET''" "''/api/v1/items/abc''"]
    items_placeholder_permission
      [of "\<lparr>u_id = 9, is_active = True, is_superuser = False,
            roles = [\<lparr>apis = [\<lparr>api_method = ''GET'', api_path = ''/api/v1/items/{id}''\<rparr>]\<rparr>]\<rparr>"
          "''POST''" "''/api/v1/items/42''"]
    items_placeholder_permission
      [of "\<lparr>u_id = 9, is_active = True, is_superuser = False,
            roles = [\<lparr>apis = [\<lparr>api_method = ''GET'', api_path = ''/api/v1/items/{id}''\<rparr>]\<rparr>]\<rparr>"
          "''GET''" "''/api/v1/items/42/extra''"]
  by simp

section \<open>Properties of the department hierarchy\<close>

text \<open>In a table with a key column, a row is found by its key and is the only one with it.\<close>

lemma find_by_key:
  assumes "distinct (map f xs)" and "x \<in> set xs"
  shows "find (\<lambda>r. f r = f x) xs = Some x"
  using assms
proof (induction xs)
  case Nil
  then show ?case by simp
next
  case (Cons a xs)
  then show ?case by (cases "a = x") force+
qed

lemma key_unique:
  assumes "distinct (map f xs)" and "x \<in> set xs" and "y \<in> set xs" and "f x = f y"
  shows "x = y"
  using assms by (meson distinct_map inj_onD)

text \<open>
  C8. For every department of the table, \<^verbatim>\<open>delete_dept\<close> on its id succeeds; it sets
  \<^verbatim>\<open>is_deleted\<close> on that row and leaves every other department row as it was, and it
  removes from the closure table the rows whose descendant is that id and no others, so
  the rows that have the department as ancestor of another one stay.
\<close>

theorem delete_dept_frame:
  assumes "dept_table_ok d" and "obj \<in> set (depts d)"
  shows "delete_dept d (d_id obj) =
           Inr (d\<lparr>depts := map (\<lambda>r. if d_id r = d_id obj then r\<lparr>is_deleted := True\<rparr> else r) (depts d),
                  dept_closure := filter (\<lambda>r. descendant r \<noteq> d_id obj) (dept_closure d)\<rparr>)"
proof -
  have ids: "distinct (map d_id (depts d))" and names: "distinct (map name (depts d))"
    using assms(1) by (simp_all add: dept_table_ok_def)
  have get: "dept_get d (d_id obj) = Inr obj"
    using find_by_key [OF ids assms(2)] by (simp add: dept_get_def)
  have no_clash: "\<not> list_ex (\<lambda>r. d_id r \<noteq> d_id obj \<and> name r = name obj) (depts d)"
    using key_unique [OF names _ assms(2)] by (auto simp add: list_ex_iff)
  have rows: "map (\<lambda>r. if d_id r = d_id obj then obj\<lparr>is_deleted := True\<rparr> else r) (depts d)
            = map (\<lambda>r. if d_id r = d_id obj then r\<lparr>is_deleted := True\<rparr> else r) (depts d)"
    using key_unique [OF ids _ assms(2)] by (intro map_cong) auto
  show ?thesis
    using get no_clash rows by (simp add: delete_dept_def dept_save_def)
qed

theorem delete_dept_frame_witness:
  "delete_dept
     \<lparr>depts =
        [\<lparr>name = ''P'', desc = None, order = 0, parent_id = 0, d_id = 1, is_deleted = False\<rparr>,
         \<lparr>name = ''C'', desc = None, order = 0, parent_id = 1, d_id = 3, is_deleted = False\<rparr>],
      dept_closure =
        [\<lparr>ancestor = 1, descendant = 1, level = 0\<rparr>,
         \<lparr>ancestor = 1, descendant = 3, level = 1\<rparr>,
         \<lparr>ancestor = 3, descendant = 3, level = 0\<rparr>],
      next_dept_id = 4\<rparr> 1
   = Inr
     \<lparr>depts =
        [\<lparr>name = ''P'', desc = None, order = 0, parent_id = 0, d_id = 1, is_deleted = True\<rparr>,
         \<lparr>name = ''C'', desc = None, order = 0, parent_id = 1, d_id = 3, is_deleted = False\<rparr>],
      dept_closure =
        [\<lparr>ancestor = 1, descendant = 3, level = 1\<rparr>,
         \<lparr>ancestor = 3, descendant = 3, level = 0\<rparr>],
      next_dept_id = 4\<rparr>"
  using delete_dept_frame
    [of "\<lparr>depts =
        [\<lparr>name = ''P'', desc = None, order = 0, parent_id = 0, d_id = 1, is_deleted = False\<rparr>,
         \<lparr>name = ''C'', desc = None, order = 0, parent_id = 1, d_id = 3, is_deleted = False\<rparr>],
      dept_closure =
        [\<lparr>ancestor = 1, descendant = 1, level = 0\<rparr>,
         \<lparr>ancestor = 1, descendant = 3, level = 1\<rparr>,
         \<lparr>ancestor = 3, descendant = 3, level = 0\<rparr>],
      next_dept_id = 4\<rparr>"
        "\<lparr>name = ''P'', desc = None, order = 0, parent_id = 0, d_id = 1, is_deleted = False\<rparr>"]
  by (simp add: dept_table_ok_def)

text \<open>
  C2, as the code has it. Departments P and Q are created at the top, C under P, and C
  is then updated to have Q as its parent. \<^verbatim>\<open>update_dept\<close> rebuilds the closure rows of
  C before the row takes the new \<^verbatim>\<open>parent_id\<close>, so it copies the ancestors of P again:
  the table keeps the row that links P to C and gets none that links Q to C.
\<close>

theorem move_keeps_old_ancestors:
  "(case create_dept \<lparr>depts = [], dept_closure = [], next_dept_id = 1\<rparr>
               \<lparr>name = ''P'', desc = None, order = 0, parent_id = 0\<rparr> of Inr d1 \<Rightarrow>
    (case create_dept d1 \<lparr>name = ''Q'', desc = None, order = 0, parent_id = 0\<rparr> of Inr d2 \<Rightarrow>
    (case create_dept d2 \<lparr>name = ''C'', desc = None, order = 0, parent_id = 1\<rparr> of Inr d3 \<Rightarrow>
       update_dept d3 \<lparr>name = ''C'', desc = None, order = 0, parent_id = 2, d_id = 3\<rparr>)))
   = Inr \<lparr>depts =
         [\<lparr>name = ''P'', desc = None, order = 0, parent_id = 0, d_id = 1, is_deleted = False\<rparr>,
          \<lparr>name = ''Q'', desc = None, order = 0, parent_id = 0, d_id = 2, is_deleted = False\<rparr>,
          \<lparr>name = ''C'', desc = None, order = 0, parent_id = 2, d_id = 3, is_deleted = False\<rparr>],
         dept_closure =
           [\<lparr>ancestor = 1, descendant = 1, level = 0\<rparr>,
            \<lparr>ancestor = 2, descendant = 2, level = 0\<rparr>,
            \<lparr>ancestor = 1, descendant = 3, level = 1\<rparr>,
            \<lparr>ancestor = 3, descendant = 3, level = 0\<rparr>],
         next_dept_id = 4\<rparr>"
  by (simp add: create_dept_def dept_create_def dept_get_def update_dept_closure_def
      update_dept_def dept_save_def update_from_dict_def Let_def)

section \<open>Properties of the sensitive-content filter\<close>

lemma occurs_ci_iff: "occurs_ci w t \<longleftrightarrow> (\<exists>u. sublist u t \<and> lower u = lower w)"
proof
  assume "occurs_ci w t"
  then obtain ps ss where "map lower_char t = ps @ map lower_char w @ ss"
    by (auto simp add: occurs_ci_def sublist_def lower_def)
  then obtain t1 u t3 where "t = t1 @ u @ t3" "map lower_char u = map lower_char w"
    by (auto simp add: map_eq_append_conv append_eq_map_conv)
  then have "sublist u t \<and> lower u = lower w"
    by (simp add: lower_def)
  then show "\<exists>u. sublist u t \<and> lower u = lower w" ..
next
  assume "\<exists>u. sublist u t \<and> lower u = lower w"
  then obtain u where "sublist u t" "lower u = lower w" by blast
  then show "occurs_ci w t"
    using map_mono_sublist [of u t lower_char] by (simp add: occurs_ci_def lower_def)
qed















end
